theory Spec2Isabelle
  imports Main "HOL-Library.Sublist"
begin

section \<open>The resume data contract\<close>

text \<open>
  \<^verbatim>\<open>create_pdf(data)\<close> receives the dictionary that \<^verbatim>\<open>json.loads\<close> produced. The
  renderer reads it through the schema of the prompt (app.py, lines 36-56), so a
  well-formed document is a record with one optional field per key: \<open>None\<close> is a key
  that is absent from the dictionary, \<open>Some v\<close> a key that is present with value \<open>v\<close>
  (so \<open>Some ''''\<close>, the empty string present, differs from \<open>None\<close>). A text is the
  UTF-8 encoding of the Python string, one character of the model for each byte:
  concatenation, emptiness and the search for an ASCII marker are the same on both
  sides, and the bytes tell whether the string fits the encoding of the font.
\<close>

record ContactInfo =
  email :: "string option"
  phone :: "string option"
  linkedin :: "string option"

record EducationEntry =
  degree :: "string option"
  institution :: "string option"
  year :: "string option"

record ExperienceEntry =
  company :: "string option"
  role :: "string option"
  details :: "string list option"

record ResumeDocument =
  name :: "string option"
  title :: "string option"
  summary :: "string option"
  contact :: "ContactInfo option"
  skills :: "string list option"
  education :: "EducationEntry list option"
  experience :: "ExperienceEntry list option"

text \<open>
  The exceptions that leave the renderer on a well-formed document: the \<^verbatim>\<open>KeyError\<close>
  of an index into a dictionary, and the two that the layout engine raises,
  \<^verbatim>\<open>FPDFUnicodeEncodingException\<close> for a text that the font cannot encode and
  \<^verbatim>\<open>FPDFException\<close> for a block that has no horizontal space.
\<close>

datatype exn = KeyError string | FPDFException | FPDFUnicodeEncodingException

text \<open>
  One statement after another: the first exception ends the function, otherwise the
  next statement runs on the value that the statement left.
\<close>

definition and_then :: "exn + 'a \<Rightarrow> ('a \<Rightarrow> exn + 'b) \<Rightarrow> exn + 'b" where
  "and_then r f = (case r of Inl e \<Rightarrow> Inl e | Inr x \<Rightarrow> f x)"

subsection \<open>Python operations used by the renderer\<close>

text \<open>\<^verbatim>\<open>d.get(key, default)\<close>, applied to the lookup of \<^verbatim>\<open>key\<close> in \<^verbatim>\<open>d\<close>.\<close>

definition dict_get :: "'a option \<Rightarrow> 'a \<Rightarrow> 'a" where
  "dict_get v dflt = (case v of None \<Rightarrow> dflt | Some x \<Rightarrow> x)"

text \<open>\<^verbatim>\<open>d[key]\<close>: a missing key raises \<^verbatim>\<open>KeyError(key)\<close>.\<close>

definition dict_index :: "'a option \<Rightarrow> string \<Rightarrow> exn + 'a" where
  "dict_index v key = (case v of None \<Rightarrow> Inl (KeyError key) | Some x \<Rightarrow> Inr x)"

text \<open>The empty dictionary \<^verbatim>\<open>{}\<close> that stands in for an absent \<^verbatim>\<open>contact\<close>.\<close>

definition empty_contact :: ContactInfo where
  "empty_contact = \<lparr>email = None, phone = None, linkedin = None\<rparr>"

text \<open>\<^verbatim>\<open>sep.join(xs)\<close> on a list of strings.\<close>

fun join :: "string \<Rightarrow> string list \<Rightarrow> string" where
  "join sep [] = []"
| "join sep [x] = x"
| "join sep (x # y # ys) = x @ sep @ join sep (y # ys)"

section \<open>The layout engine as the renderer drives it\<close>

text \<open>
  The fpdf engine is not part of the repository. The model keeps of its \<^verbatim>\<open>FPDF\<close>
  object what \<^verbatim>\<open>create_pdf\<close> can observe: the calls made so far, in order and with
  their arguments, and whether the cursor stands at the right margin.
  \<open>Cell w h text new_y new_x\<close> is \<^verbatim>\<open>pdf.cell(w, h, text, new_y=..., new_x=...)\<close>,
  \<open>MultiCell w h text\<close> is \<^verbatim>\<open>pdf.multi_cell(w, h, text)\<close>.
\<close>

datatype pdf_call =
    AddPage
  | SetFont string string nat
  | Cell nat nat string string string
  | Ln nat
  | MultiCell nat nat string

record FPDF =
  calls :: "pdf_call list"
  at_right_margin :: bool

text \<open>\<^verbatim>\<open>FPDF()\<close>, line 68.\<close>

definition new_FPDF :: FPDF where
  "new_FPDF = \<lparr>calls = [], at_right_margin = False\<rparr>"

text \<open>
  Every font that \<^verbatim>\<open>create_pdf\<close> selects is the core font \<^verbatim>\<open>Arial\<close>, whose encoding is
  Latin-1: the engine encodes each text that it places, and a character beyond
  U+00FF raises \<^verbatim>\<open>FPDFUnicodeEncodingException\<close>. In UTF-8 the characters up to U+00FF
  are the ones written with bytes below \<open>0xC4\<close> only.
\<close>

definition latin1 :: "string \<Rightarrow> bool" where
  "latin1 txt = list_all (\<lambda>c. (of_char c :: nat) < 0xC4) txt"

text \<open>A text with a character to draw: one that is neither a space nor a line break.\<close>

definition has_glyph :: "string \<Rightarrow> bool" where
  "has_glyph txt = list_ex (\<lambda>c. c \<noteq> CHR '' '' \<and> c \<noteq> CHR 0x0A) txt"

text \<open>A new page, and a line break, start at the left margin.\<close>

definition add_page :: "FPDF \<Rightarrow> FPDF" where
  "add_page pdf = pdf\<lparr>calls := calls pdf @ [AddPage], at_right_margin := False\<rparr>"

definition set_font :: "string \<Rightarrow> string \<Rightarrow> nat \<Rightarrow> FPDF \<Rightarrow> FPDF" where
  "set_font family style sz pdf = pdf\<lparr>calls := calls pdf @ [SetFont family style sz]\<rparr>"

text \<open>
  \<^verbatim>\<open>cell\<close> encodes its text and draws it where the cursor stands, however little room
  is left there: a cell of width 0 (the rest of the line) that is issued at the right
  margin is drawn at that margin. With \<^verbatim>\<open>new_x="LMARGIN"\<close> the cursor goes back to the
  left margin; the engine's default leaves it at the right end of the cell, which for
  width 0 is the right margin. Every \<^verbatim>\<open>cell\<close> call of \<^verbatim>\<open>create_pdf\<close> passes
  \<^verbatim>\<open>new_x="LMARGIN"\<close>.
\<close>

definition cell :: "nat \<Rightarrow> nat \<Rightarrow> string \<Rightarrow> string \<Rightarrow> string \<Rightarrow> FPDF \<Rightarrow> exn + FPDF" where
  "cell w h txt new_y new_x pdf =
    (if \<not> latin1 txt then Inl FPDFUnicodeEncodingException
     else Inr (pdf\<lparr>calls := calls pdf @ [Cell w h txt new_y new_x],
                    at_right_margin := (w = 0 \<and> new_x \<noteq> ''LMARGIN'')\<rparr>))"

definition ln :: "nat \<Rightarrow> FPDF \<Rightarrow> FPDF" where
  "ln h pdf = pdf\<lparr>calls := calls pdf @ [Ln h], at_right_margin := False\<rparr>"

text \<open>
  \<^verbatim>\<open>multi_cell(w, h, text)\<close> with no \<^verbatim>\<open>new_x\<close>, as every call of \<^verbatim>\<open>create_pdf\<close> has it.
  The engine encodes the text, then breaks it into lines of the width that is left;
  at the right margin a block of width 0 has no room for a single character, and a
  text with a character to draw raises \<^verbatim>\<open>FPDFException\<close>. The default \<^verbatim>\<open>new_x\<close> of
  \<^verbatim>\<open>multi_cell\<close> leaves the cursor at the right end of the block: for width 0, at the
  right margin.
\<close>

definition multi_cell :: "nat \<Rightarrow> nat \<Rightarrow> string \<Rightarrow> FPDF \<Rightarrow> exn + FPDF" where
  "multi_cell w h txt pdf =
    (if \<not> latin1 txt then Inl FPDFUnicodeEncodingException
     else if w = 0 \<and> at_right_margin pdf \<and> has_glyph txt then Inl FPDFException
     else Inr (pdf\<lparr>calls := calls pdf @ [MultiCell w h txt], at_right_margin := (w = 0)\<rparr>))"

text \<open>
  \<^verbatim>\<open>pdf.output(dest='S')\<close>: the engine's serialisation of the calls it recorded. The
  bytes themselves are the engine's: what it writes around these calls (the document
  structure, its creation date) is not in the repository, so the model stops at the
  calls.
\<close>

definition pdf_output :: "FPDF \<Rightarrow> pdf_call list" where
  "pdf_output pdf = calls pdf"

section \<open>The document renderer: \<^verbatim>\<open>create_pdf\<close>\<close>

text \<open>
  The loop of lines 105-110. \<^verbatim>\<open>job.get('role', '')\<close> and \<^verbatim>\<open>job.get('company', '')\<close>
  have defaults; \<^verbatim>\<open>job['details']\<close> is an index and raises \<^verbatim>\<open>KeyError\<close> when the key
  is absent. A non-empty list is true, and \<^verbatim>\<open>job['details'][0]\<close> is then its head.
\<close>

fun experience_loop :: "ExperienceEntry list \<Rightarrow> FPDF \<Rightarrow> exn + FPDF" where
  "experience_loop [] pdf = Inr pdf"
| "experience_loop (job # jobs) pdf =
    (let job_details = dict_get (role job) '''' @ '' at '' @ dict_get (company job) ''''
     in and_then (cell 0 5 job_details ''NEXT'' ''LMARGIN'' pdf) (\<lambda>pdf.
        and_then (dict_index (details job) ''details'') (\<lambda>job_details_list.
        and_then (case job_details_list of
                    [] \<Rightarrow> Inr pdf
                  | d # ds \<Rightarrow> multi_cell 0 5 (''- '' @ d) pdf) (\<lambda>pdf.
        experience_loop jobs pdf))))"

text \<open>
  The loop of lines 118-119: one \<^verbatim>\<open>multi_cell\<close> for each entry, with nothing between
  two of them that moves the cursor.
\<close>

fun education_loop :: "EducationEntry list \<Rightarrow> FPDF \<Rightarrow> exn + FPDF" where
  "education_loop [] pdf = Inr pdf"
| "education_loop (edu # edus) pdf =
    and_then
      (multi_cell 0 5
         (dict_get (degree edu) ''N/A'' @ '' from '' @ dict_get (institution edu) ''N/A''
            @ '' ('' @ dict_get (year edu) ''N/A'' @ '')'') pdf)
      (\<lambda>pdf. education_loop edus pdf)"

text \<open>
  \<^verbatim>\<open>create_pdf\<close>, lines 67-122. \<^verbatim>\<open>str(...)\<close> of a string is the string. The guard
  \<^verbatim>\<open>if contact_data.get('linkedin')\<close> is false for an absent key and for the empty
  string. The result \<open>Inr calls\<close> stands for \<^verbatim>\<open>bytes(pdf.output(dest='S'))\<close>; \<open>Inl e\<close> is
  the exception that leaves the function, which has no handler of its own.
\<close>

definition create_pdf :: "ResumeDocument \<Rightarrow> exn + pdf_call list" where
  "create_pdf data =
    (let pdf = new_FPDF;
         pdf = add_page pdf;
         pdf = set_font ''Arial'' ''B'' 18 pdf
     in and_then (cell 200 8 (dict_get (name data) ''Name Not Found'') ''NEXT'' ''LMARGIN'' pdf) (\<lambda>pdf.
     let pdf = set_font ''Arial'' '''' 12 pdf
     in and_then (cell 200 6 (dict_get (title data) ''Title Not Found'') ''NEXT'' ''LMARGIN'' pdf) (\<lambda>pdf.
     let pdf = set_font ''Arial'' '''' 9 pdf;
         contact_data = dict_get (contact data) empty_contact
     in and_then (cell 0 5 (''Email: '' @ dict_get (email contact_data) ''N/A''
                           @ '' | Phone: '' @ dict_get (phone contact_data) ''N/A'')
                    ''NEXT'' ''LMARGIN'' pdf) (\<lambda>pdf.
        and_then (case linkedin contact_data of
                    None \<Rightarrow> Inr pdf
                  | Some l \<Rightarrow> if l = [] then Inr pdf
                              else cell 0 5 (''LinkedIn: '' @ l) ''NEXT'' ''LMARGIN'' pdf) (\<lambda>pdf.
     let pdf = ln 5 pdf;
         pdf = set_font ''Arial'' ''B'' 10 pdf
     in and_then (cell 200 5 ''PROFESSIONAL SUMMARY'' ''NEXT'' ''LMARGIN'' pdf) (\<lambda>pdf.
     let pdf = set_font ''Arial'' '''' 10 pdf
     in and_then (multi_cell 0 5 (dict_get (summary data) '''') pdf) (\<lambda>pdf.
     let pdf = ln 5 pdf;
         pdf = set_font ''Arial'' ''B'' 10 pdf
     in and_then (cell 200 5 ''TECHNICAL SKILLS'' ''NEXT'' ''LMARGIN'' pdf) (\<lambda>pdf.
     let pdf = set_font ''Arial'' '''' 10 pdf;
         skills = join '' | '' (dict_get (skills data) [])
     in and_then (multi_cell 0 5 skills pdf) (\<lambda>pdf.
     let pdf = ln 5 pdf;
         pdf = set_font ''Arial'' ''B'' 10 pdf
     in and_then (cell 200 5 ''EXPERIENCE'' ''NEXT'' ''LMARGIN'' pdf) (\<lambda>pdf.
     let pdf = set_font ''Arial'' '''' 10 pdf
     in and_then (experience_loop (dict_get (experience data) []) pdf) (\<lambda>pdf.
     let pdf = ln 5 pdf;
         pdf = set_font ''Arial'' ''B'' 10 pdf
     in and_then (cell 200 5 ''EDUCATION'' ''NEXT'' ''LMARGIN'' pdf) (\<lambda>pdf.
     let pdf = set_font ''Arial'' '''' 10 pdf
     in and_then (education_loop (dict_get (education data) []) pdf) (\<lambda>pdf.
     Inr (pdf_output pdf))))))))))))))"

section \<open>The text-to-resume transformer: \<^verbatim>\<open>get_ai_resume\<close>\<close>

text \<open>
  The values that \<^verbatim>\<open>json.loads\<close> returns. An object keeps its members in order; numbers
  are integers here (the schema has none, and the transformer only passes values on).
  The last three are the floats \<^verbatim>\<open>nan\<close>, \<^verbatim>\<open>inf\<close> and \<^verbatim>\<open>-inf\<close>: Python's decoder, called
  as line 62 calls it, accepts the words \<^verbatim>\<open>NaN\<close>, \<^verbatim>\<open>Infinity\<close> and \<^verbatim>\<open>-Infinity\<close>, which
  the JSON grammar does not have, and returns these.
\<close>

datatype json =
    JNull
  | JBool bool
  | JNum int
  | JStr string
  | JArr "json list"
  | JObj "(string \<times> json) list"
  | JNaN
  | JInfinity
  | JNegInfinity

text \<open>
  \<^verbatim>\<open>s.replace(old, new)\<close>: every non-overlapping occurrence of \<open>old\<close>, leftmost first.
  An empty \<open>old\<close> matches before every character and at the end.
\<close>

function replace :: "string \<Rightarrow> string \<Rightarrow> string \<Rightarrow> string" where
  "replace old new [] = (if old = [] then new else [])"
| "replace old new (c # cs) =
    (if old = [] then new @ c # replace old new cs
     else if prefix old (c # cs) then new @ replace old new (drop (length old) (c # cs))
     else c # replace old new cs)"
  by pat_completeness auto
termination
  by (relation "measure (\<lambda>(old, new, s). length s)") auto

text \<open>The f-string of lines 26-57; \<open>{{\<close> and \<open>}}\<close> are literal braces.\<close>

definition prompt_text :: "string \<Rightarrow> string \<Rightarrow> string" where
  \<open>prompt_text raw_text style =
    concat (map (\<lambda>l. l @ [CHR 0x0A])
      ['''',
       ''    You are an expert Resume Engineer.'',
       ''    Task: Convert this unstructured text into professional JSON data.'',
       ''    Input: "'' @ raw_text @ ''"'',
       ''    '',
       ''    RULES:'',
       ''    1. Professional Tone: Change simple words (e.g. "fixed") to professional ones (e.g. "Resolved complex faults").'',
       ''    2. Style Constraint: Ensure the language and tone reflect a '' @ style
         @ '' style resume. Drastically change the verb usage and tone between the options.'',
       ''    3. Format: Output strictly valid JSON.'',
       ''    4. Schema:'',
       ''    {'',
       ''        "name": "String",'',
       ''        "title": "String",'',
       ''        "summary": "String",'',
       ''        "contact": {'',
       ''            "email": "String",'',
       ''            "phone": "String",'',
       ''            "linkedin": "String (Optional)"'',
       ''        },'',
       ''        "skills": ["String", "String", "String"],'',
       ''        "education": ['',
       ''            {'',
       ''                "degree": "String",'',
       ''                "institution": "String",'',
       ''                "year": "String"'',
       ''            }'',
       ''        ],'',
       ''        "experience": ['',
       ''            { "company": "String", "role": "String", "details": ["String", "String"] }'',
       ''        ]'',
       ''    }''])
    @ ''    ''\<close>

text \<open>The dictionary \<^verbatim>\<open>{"error": str(e)}\<close> of line 64.\<close>

definition error_result :: "string \<Rightarrow> json" where
  "error_result msg = JObj [(''error'', JStr msg)]"

text \<open>\<^verbatim>\<open>response.text.replace("```json", "").replace("```", "")\<close>, line 61.\<close>

abbreviation clean_text :: "string \<Rightarrow> string" where
  \<open>clean_text response_text \<equiv> replace ''```'' '''' (replace ''```json'' '''' response_text)\<close>

text \<open>
  \<^verbatim>\<open>get_ai_resume\<close>, lines 22-64. The hosted model and the JSON decoder are outside
  the repository and are parameters: \<open>generate_content prompt\<close> is the text of the
  response, or \<open>Inl msg\<close> when the call (or reading \<^verbatim>\<open>response.text\<close>) raises an
  exception whose \<^verbatim>\<open>str\<close> is \<open>msg\<close>; \<open>loads text\<close> is the decoded value, or \<open>Inl msg\<close>
  when \<^verbatim>\<open>json.loads\<close> raises. Both statements stand inside \<^verbatim>\<open>try\<close>, and
  \<^verbatim>\<open>except Exception\<close> turns either exception into the error dictionary, so the
  function has no exceptional result. The memoising decorator is left out.
\<close>

definition get_ai_resume ::
  "(string \<Rightarrow> string + string) \<Rightarrow> (string \<Rightarrow> string + json) \<Rightarrow> string \<Rightarrow> string \<Rightarrow> json" where
  "get_ai_resume generate_content loads raw_text style =
    (let prompt = prompt_text raw_text style
     in case generate_content prompt of
          Inl e \<Rightarrow> error_result e
        | Inr response_text \<Rightarrow>
           (case loads (clean_text response_text) of
              Inl e \<Rightarrow> error_result e
            | Inr parsed \<Rightarrow> parsed))"

subsection \<open>The shape of a resume document\<close>

text \<open>
  The schema that the prompt fixes (lines 36-56), read with every member optional: an
  object whose keys are schema keys, none twice, each with a value of the type the
  schema gives it.
\<close>

fun is_str :: "json \<Rightarrow> bool" where
  "is_str (JStr s) = True"
| "is_str j = False"

fun is_list_of :: "(json \<Rightarrow> bool) \<Rightarrow> json \<Rightarrow> bool" where
  "is_list_of p (JArr xs) = list_all p xs"
| "is_list_of p j = False"

fun is_object_of :: "(string \<times> (json \<Rightarrow> bool)) list \<Rightarrow> json \<Rightarrow> bool" where
  "is_object_of schema (JObj members) =
     (distinct (map fst members) \<and>
      list_all (\<lambda>(k, v). case map_of schema k of None \<Rightarrow> False | Some p \<Rightarrow> p v) members)"
| "is_object_of schema j = False"

definition resume_shape :: "json \<Rightarrow> bool" where
  "resume_shape =
    is_object_of
      [(''name'', is_str), (''title'', is_str), (''summary'', is_str),
       (''contact'',
          is_object_of [(''email'', is_str), (''phone'', is_str), (''linkedin'', is_str)]),
       (''skills'', is_list_of is_str),
       (''education'',
          is_list_of
            (is_object_of [(''degree'', is_str), (''institution'', is_str), (''year'', is_str)])),
       (''experience'',
          is_list_of
            (is_object_of
               [(''company'', is_str), (''role'', is_str), (''details'', is_list_of is_str)]))]"

text \<open>A result of the form that line 64 returns.\<close>

fun is_generation_error :: "json \<Rightarrow> bool" where
  "is_generation_error (JObj [(k, JStr msg)]) = (k = ''error'')"
| "is_generation_error j = False"

text \<open>
  What the JSON grammar (RFC 8259) asks of the start of a text: a JSON text is one
  value between optional whitespace (space, tab, line feed, carriage return), and a
  value opens with a brace, a bracket, a quote, a minus sign, a digit, or the first
  letter of \<^verbatim>\<open>true\<close>, \<^verbatim>\<open>false\<close> or \<^verbatim>\<open>null\<close>. The condition is necessary, not
  sufficient: a text that does not open so is not valid JSON.
\<close>

definition opens_json_value :: "string \<Rightarrow> bool" where
  \<open>opens_json_value text =
    (case dropWhile (\<lambda>c. c \<in> set [CHR '' '', CHR 0x09, CHR 0x0A, CHR 0x0D]) text of
       [] \<Rightarrow> False
     | c # cs \<Rightarrow> c \<in> set ''{["-0123456789tfn'')\<close>

section \<open>Reading the rendered document\<close>

text \<open>
  The vocabulary of the layout claims. The lines of a document are its text calls
  (\<^verbatim>\<open>cell\<close> and \<^verbatim>\<open>multi_cell\<close>), font and spacing calls left out. A section header is
  a cell of width 200 and height 5: \<^verbatim>\<open>create_pdf\<close> issues exactly four of them, with
  the literal titles, and every cell that carries document text has another width or
  height. The header block is what precedes the first section header; the section
  titled \<open>t\<close> is what lies between the header \<open>t\<close> and the next section header.
\<close>

fun is_text :: "pdf_call \<Rightarrow> bool" where
  "is_text (Cell w h txt new_y new_x) = True"
| "is_text (MultiCell w h txt) = True"
| "is_text c = False"

fun is_heading :: "pdf_call \<Rightarrow> bool" where
  "is_heading (Cell w h txt new_y new_x) = (w = 200 \<and> h = 5)"
| "is_heading c = False"

definition heading :: "string \<Rightarrow> pdf_call" where
  "heading t = Cell 200 5 t ''NEXT'' ''LMARGIN''"

definition text_lines :: "pdf_call list \<Rightarrow> pdf_call list" where
  "text_lines pdf = filter is_text pdf"

definition header_block :: "pdf_call list \<Rightarrow> pdf_call list" where
  "header_block pdf = takeWhile (\<lambda>c. \<not> is_heading c) (text_lines pdf)"

definition section_of :: "string \<Rightarrow> pdf_call list \<Rightarrow> pdf_call list option" where
  "section_of t pdf =
    (case dropWhile (\<lambda>c. c \<noteq> heading t) (text_lines pdf) of
       [] \<Rightarrow> None
     | h # rest \<Rightarrow> Some (takeWhile (\<lambda>c. \<not> is_heading c) rest))"

text \<open>A full-width line of the header block that starts with the LinkedIn label.\<close>

fun is_linkedin_line :: "pdf_call \<Rightarrow> bool" where
  "is_linkedin_line (Cell w h txt new_y new_x) = (w = 0 \<and> prefix ''LinkedIn: '' txt)"
| "is_linkedin_line c = False"

text \<open>
  The lines that the layout claims name, written from their wording: the
  role/company line of an experience entry, the detail line made of the dash marker
  and the first detail item (none for an empty list), the line of an education entry
  with \<open>N/A\<close> for an absent field, and the combined email/phone line.
\<close>

definition role_company_line :: "ExperienceEntry \<Rightarrow> pdf_call" where
  "role_company_line job =
    Cell 0 5 ((case role job of None \<Rightarrow> [] | Some r \<Rightarrow> r) @ '' at ''
              @ (case company job of None \<Rightarrow> [] | Some c \<Rightarrow> c)) ''NEXT'' ''LMARGIN''"

fun first_detail_line :: "string list \<Rightarrow> pdf_call list" where
  "first_detail_line [] = []"
| "first_detail_line (a # rest) = [MultiCell 0 5 (''- '' @ a)]"

definition entry_lines :: "ExperienceEntry \<Rightarrow> pdf_call list" where
  "entry_lines job =
    role_company_line job # (case details job of None \<Rightarrow> [] | Some ds \<Rightarrow> first_detail_line ds)"

definition or_na :: "string option \<Rightarrow> string" where
  "or_na v = (case v of None \<Rightarrow> ''N/A'' | Some s \<Rightarrow> s)"

definition education_line :: "EducationEntry \<Rightarrow> pdf_call" where
  "education_line edu =
    MultiCell 0 5 (or_na (degree edu) @ '' from '' @ or_na (institution edu)
                   @ '' ('' @ or_na (year edu) @ '')'')"

definition email_phone_line :: "ContactInfo option \<Rightarrow> pdf_call" where
  "email_phone_line c =
    Cell 0 5 (''Email: '' @ (case c of None \<Rightarrow> ''N/A'' | Some ci \<Rightarrow> or_na (email ci))
              @ '' | Phone: '' @ (case c of None \<Rightarrow> ''N/A'' | Some ci \<Rightarrow> or_na (phone ci)))
      ''NEXT'' ''LMARGIN''"

text \<open>
  The name and title lines with their placeholders, and the LinkedIn line as the guard
  of line 81 lets it through: only for a value that is present and not empty.
\<close>

definition name_line :: "ResumeDocument \<Rightarrow> pdf_call" where
  "name_line d = Cell 200 8 (dict_get (name d) ''Name Not Found'') ''NEXT'' ''LMARGIN''"

definition title_line :: "ResumeDocument \<Rightarrow> pdf_call" where
  "title_line d = Cell 200 6 (dict_get (title d) ''Title Not Found'') ''NEXT'' ''LMARGIN''"

definition linkedin_lines :: "ContactInfo option \<Rightarrow> pdf_call list" where
  "linkedin_lines c =
    (case c of
       None \<Rightarrow> []
     | Some ci \<Rightarrow>
        (case linkedin ci of
           None \<Rightarrow> []
         | Some l \<Rightarrow> if l = [] then [] else [Cell 0 5 (''LinkedIn: '' @ l) ''NEXT'' ''LMARGIN'']))"

text \<open>
  All skills, in order, with the delimiter between each two of them, as the skills
  claim words it: the first skill, then each further skill behind a delimiter.
\<close>

fun skills_block :: "string list \<Rightarrow> string" where
  "skills_block [] = []"
| "skills_block (s # rest) = s @ concat (map (\<lambda>t. '' | '' @ t) rest)"

subsection \<open>The documents that render\<close>

text \<open>The text that a call places, if it places one.\<close>

fun line_text :: "pdf_call \<Rightarrow> string" where
  "line_text (Cell w h txt new_y new_x) = txt"
| "line_text (MultiCell w h txt) = txt"
| "line_text c = []"

text \<open>
  The calls that the statements of \<^verbatim>\<open>create_pdf\<close> make on a document when none of them
  raises, in the order of lines 68-119.
\<close>

definition rendering :: "ResumeDocument \<Rightarrow> pdf_call list" where
  "rendering d =
     [AddPage, SetFont ''Arial'' ''B'' 18, name_line d, SetFont ''Arial'' '''' 12, title_line d,
      SetFont ''Arial'' '''' 9, email_phone_line (contact d)] @ linkedin_lines (contact d)
     @ [Ln 5, SetFont ''Arial'' ''B'' 10, heading ''PROFESSIONAL SUMMARY'',
        SetFont ''Arial'' '''' 10, MultiCell 0 5 (dict_get (summary d) ''''),
        Ln 5, SetFont ''Arial'' ''B'' 10, heading ''TECHNICAL SKILLS'',
        SetFont ''Arial'' '''' 10, MultiCell 0 5 (join '' | '' (dict_get (skills d) [])),
        Ln 5, SetFont ''Arial'' ''B'' 10, heading ''EXPERIENCE'', SetFont ''Arial'' '''' 10]
     @ concat (map entry_lines (dict_get (experience d) []))
     @ [Ln 5, SetFont ''Arial'' ''B'' 10, heading ''EDUCATION'', SetFont ''Arial'' '''' 10]
     @ map education_line (dict_get (education d) [])"

text \<open>
  The documents on which no statement raises: every text to place is within Latin-1,
  every experience entry has a \<^verbatim>\<open>details\<close> key, and there is at most one education
  entry. That these are exactly the documents for which \<^verbatim>\<open>create_pdf\<close> returns is
  \<open>create_pdf_succeeds_iff\<close> below.
\<close>

definition renderable :: "ResumeDocument \<Rightarrow> bool" where
  "renderable d =
    (list_all (\<lambda>c. latin1 (line_text c)) (rendering d)
     \<and> list_all (\<lambda>job. details job \<noteq> None) (dict_get (experience d) [])
     \<and> length (dict_get (education d) []) \<le> 1)"

text \<open>The same condition, part by part: the two loops, and the texts outside them.\<close>

definition jobs_ok :: "ExperienceEntry list \<Rightarrow> bool" where
  "jobs_ok jobs =
    (list_all (\<lambda>c. latin1 (line_text c)) (concat (map entry_lines jobs))
     \<and> list_all (\<lambda>job. details job \<noteq> None) jobs)"

definition edus_ok :: "EducationEntry list \<Rightarrow> bool" where
  "edus_ok edus =
    (list_all (\<lambda>c. latin1 (line_text c)) (map education_line edus) \<and> length edus \<le> 1)"

definition texts_ok :: "ResumeDocument \<Rightarrow> bool" where
  "texts_ok d =
    (latin1 (line_text (name_line d)) \<and> latin1 (line_text (title_line d))
     \<and> latin1 (line_text (email_phone_line (contact d)))
     \<and> list_all (\<lambda>c. latin1 (line_text c)) (linkedin_lines (contact d))
     \<and> latin1 (dict_get (summary d) '''')
     \<and> latin1 (join '' | '' (dict_get (skills d) [])))"

section \<open>Sample inputs\<close>

subsection \<open>Documents\<close>

text \<open>An experience entry that has a role and a company and no \<^verbatim>\<open>details\<close> key.\<close>

definition doc_no_details :: ResumeDocument where
  "doc_no_details =
    \<lparr>name = Some ''Jane Doe'', title = None, summary = None, contact = None,
     skills = None, education = None,
     experience = Some [\<lparr>company = Some ''PTCL'', role = Some ''Engineer'', details = None\<rparr>]\<rparr>"

text \<open>The example of the specification: a name, two skills, no experience, no education.\<close>

definition doc_jane :: ResumeDocument where
  "doc_jane =
    \<lparr>name = Some ''Jane Doe'', title = None, summary = None, contact = None,
     skills = Some [''Go'', ''SQL''], education = Some [], experience = Some []\<rparr>"

definition pdf_jane :: "pdf_call list" where
  "pdf_jane =
    [AddPage,
     SetFont ''Arial'' ''B'' 18, Cell 200 8 ''Jane Doe'' ''NEXT'' ''LMARGIN'',
     SetFont ''Arial'' '''' 12, Cell 200 6 ''Title Not Found'' ''NEXT'' ''LMARGIN'',
     SetFont ''Arial'' '''' 9, Cell 0 5 ''Email: N/A | Phone: N/A'' ''NEXT'' ''LMARGIN'',
     Ln 5,
     SetFont ''Arial'' ''B'' 10, Cell 200 5 ''PROFESSIONAL SUMMARY'' ''NEXT'' ''LMARGIN'',
     SetFont ''Arial'' '''' 10, MultiCell 0 5 '''',
     Ln 5,
     SetFont ''Arial'' ''B'' 10, Cell 200 5 ''TECHNICAL SKILLS'' ''NEXT'' ''LMARGIN'',
     SetFont ''Arial'' '''' 10, MultiCell 0 5 ''Go | SQL'',
     Ln 5,
     SetFont ''Arial'' ''B'' 10, Cell 200 5 ''EXPERIENCE'' ''NEXT'' ''LMARGIN'',
     SetFont ''Arial'' '''' 10,
     Ln 5,
     SetFont ''Arial'' ''B'' 10, Cell 200 5 ''EDUCATION'' ''NEXT'' ''LMARGIN'',
     SetFont ''Arial'' '''' 10]"

text \<open>Two experience entries: one with an empty details list, one with two items.\<close>

definition doc_two_jobs :: ResumeDocument where
  "doc_two_jobs =
    \<lparr>name = Some ''Jane Doe'', title = Some ''Engineer'', summary = None, contact = None,
     skills = None, education = None,
     experience = Some
       [\<lparr>company = Some ''Acme'', role = Some ''Developer'', details = Some []\<rparr>,
        \<lparr>company = Some ''PTCL'', role = Some ''Engineer'', details = Some [''A'', ''B'']\<rparr>]\<rparr>"

text \<open>Two education entries, the second with only its institution.\<close>

definition doc_education :: ResumeDocument where
  "doc_education =
    \<lparr>name = None, title = None, summary = None, contact = None, skills = None,
     education = Some
       [\<lparr>degree = Some ''BSc'', institution = Some ''MIT'', year = Some ''2020''\<rparr>,
        \<lparr>degree = None, institution = Some ''NUST'', year = None\<rparr>],
     experience = None\<rparr>"

text \<open>A contact whose \<^verbatim>\<open>linkedin\<close> is present and empty, and one whose is not empty.\<close>

definition contact_empty_linkedin :: ContactInfo where
  "contact_empty_linkedin =
    \<lparr>email = Some ''jane@example.com'', phone = None, linkedin = Some ''''\<rparr>"

definition doc_empty_linkedin :: ResumeDocument where
  "doc_empty_linkedin =
    \<lparr>name = Some ''Jane Doe'', title = None, summary = None,
     contact = Some contact_empty_linkedin,
     skills = None, education = None, experience = None\<rparr>"

definition pdf_empty_linkedin :: "pdf_call list" where
  "pdf_empty_linkedin =
    [AddPage,
     SetFont ''Arial'' ''B'' 18, Cell 200 8 ''Jane Doe'' ''NEXT'' ''LMARGIN'',
     SetFont ''Arial'' '''' 12, Cell 200 6 ''Title Not Found'' ''NEXT'' ''LMARGIN'',
     SetFont ''Arial'' '''' 9,
     Cell 0 5 ''Email: jane@example.com | Phone: N/A'' ''NEXT'' ''LMARGIN'',
     Ln 5,
     SetFont ''Arial'' ''B'' 10, Cell 200 5 ''PROFESSIONAL SUMMARY'' ''NEXT'' ''LMARGIN'',
     SetFont ''Arial'' '''' 10, MultiCell 0 5 '''',
     Ln 5,
     SetFont ''Arial'' ''B'' 10, Cell 200 5 ''TECHNICAL SKILLS'' ''NEXT'' ''LMARGIN'',
     SetFont ''Arial'' '''' 10, MultiCell 0 5 '''',
     Ln 5,
     SetFont ''Arial'' ''B'' 10, Cell 200 5 ''EXPERIENCE'' ''NEXT'' ''LMARGIN'',
     SetFont ''Arial'' '''' 10,
     Ln 5,
     SetFont ''Arial'' ''B'' 10, Cell 200 5 ''EDUCATION'' ''NEXT'' ''LMARGIN'',
     SetFont ''Arial'' '''' 10]"

definition doc_linkedin :: ResumeDocument where
  "doc_linkedin =
    \<lparr>name = Some ''Jane Doe'', title = None, summary = None,
     contact = Some \<lparr>email = None, phone = Some ''555-0100'',
                     linkedin = Some ''linkedin.com/in/jane''\<rparr>,
     skills = None, education = None, experience = None\<rparr>"

text \<open>Four skills.\<close>

definition doc_four_skills :: ResumeDocument where
  "doc_four_skills =
    \<lparr>name = Some ''Jane Doe'', title = None, summary = None, contact = None,
     skills = Some [''Go'', ''SQL'', ''Rust'', ''C''], education = None, experience = None\<rparr>"

text \<open>
  Documents with a text beyond Latin-1, in UTF-8: the role \<^verbatim>\<open>In\<close>, U+017C, \<^verbatim>\<open>ynier\<close>
  (bytes \<open>C5 BC\<close>) in an entry with an empty details list; the skill \<^verbatim>\<open>C\<close>, U+266F
  (bytes \<open>E2 99 AF\<close>); the name U+0141, \<^verbatim>\<open>ukasz\<close> (bytes \<open>C5 81\<close>) above a contact with
  an email and no phone.
\<close>

definition job_wide_role :: ExperienceEntry where
  "job_wide_role =
    \<lparr>company = Some ''PTCL'', role = Some (''In'' @ [CHR 0xC5, CHR 0xBC] @ ''ynier''),
     details = Some []\<rparr>"

definition doc_wide_role :: ResumeDocument where
  "doc_wide_role =
    \<lparr>name = Some ''Jane Doe'', title = None, summary = None, contact = None,
     skills = None, education = None, experience = Some [job_wide_role]\<rparr>"

definition doc_wide_skill :: ResumeDocument where
  "doc_wide_skill =
    \<lparr>name = Some ''Jane Doe'', title = None, summary = None, contact = None,
     skills = Some [''Go'', ''C'' @ [CHR 0xE2, CHR 0x99, CHR 0xAF]],
     education = None, experience = None\<rparr>"

definition contact_email_only :: ContactInfo where
  "contact_email_only = \<lparr>email = Some ''lukasz@example.com'', phone = None, linkedin = None\<rparr>"

definition doc_wide_name :: ResumeDocument where
  "doc_wide_name =
    \<lparr>name = Some ([CHR 0xC5, CHR 0x81] @ ''ukasz''), title = None, summary = None,
     contact = Some contact_email_only,
     skills = None, education = None, experience = None\<rparr>"

subsection \<open>Backends and decoded texts\<close>

text \<open>
  Stand-ins for the hosted model: one answers every prompt with a fixed text, one
  raises on every prompt.
\<close>

definition backend_returns :: "string \<Rightarrow> string \<Rightarrow> string + string" where
  "backend_returns response_text prompt = Inr response_text"

definition backend_raises :: "string \<Rightarrow> string \<Rightarrow> string + string" where
  "backend_raises msg prompt = Inl msg"

definition sample_request :: string where
  "sample_request = ''I fixed servers at PTCL for 3 years''"

text \<open>
  \<^verbatim>\<open>json.loads\<close> on the texts that the statements below decode, as a table: five
  JSON texts, the three words that the decoder accepts beyond the JSON grammar, and
  in the last line the message of \<^verbatim>\<open>json.loads("not json")\<close>; no statement decodes a
  text that the table does not list, but for that one.
\<close>

definition json_jane :: string where
  \<open>json_jane = ''{"name": "Jane Doe"}''\<close>

definition json_fence_inside :: string where
  \<open>json_fence_inside = ''{"summary": "Use ``` for code"}''\<close>

definition loads_sample :: "string \<Rightarrow> string + json" where
  \<open>loads_sample text =
    (if text = ''["Jane Doe"]'' then Inr (JArr [JStr ''Jane Doe''])
     else if text = json_jane then Inr (JObj [(''name'', JStr ''Jane Doe'')])
     else if text = [CHR 0x0A] @ json_jane @ [CHR 0x0A]
       then Inr (JObj [(''name'', JStr ''Jane Doe'')])
     else if text = json_fence_inside
       then Inr (JObj [(''summary'', JStr ''Use ``` for code'')])
     else if text = ''{"summary": "Use  for code"}''
       then Inr (JObj [(''summary'', JStr ''Use  for code'')])
     else if text = ''NaN'' then Inr JNaN
     else if text = ''Infinity'' then Inr JInfinity
     else if text = ''-Infinity'' then Inr JNegInfinity
     else Inl ''Expecting value: line 1 column 1 (char 0)'')\<close>


section \<open>Layout lemmas\<close>

subsection \<open>The engine calls, one at a time\<close>

lemma latin1_simps:
  "latin1 [] = True" "latin1 (c # cs) = ((of_char c :: nat) < 0xC4 \<and> latin1 cs)"
  "latin1 (a @ b) = (latin1 a \<and> latin1 b)"
  by (simp_all add: latin1_def)

lemma and_then_simps:
  "and_then (Inl e) f = Inl e" "and_then (Inr x) f = f x"
  by (simp_all add: and_then_def)

lemma cell_LMARGIN:
  "cell w h txt new_y ''LMARGIN'' pdf =
     (if latin1 txt
      then Inr (pdf\<lparr>calls := calls pdf @ [Cell w h txt new_y ''LMARGIN''],
                     at_right_margin := False\<rparr>)
      else Inl FPDFUnicodeEncodingException)"
  by (simp add: cell_def)

lemma multi_cell_left:
  "\<not> at_right_margin pdf \<Longrightarrow>
   multi_cell 0 h txt pdf =
     (if latin1 txt
      then Inr (pdf\<lparr>calls := calls pdf @ [MultiCell 0 h txt], at_right_margin := True\<rparr>)
      else Inl FPDFUnicodeEncodingException)"
  by (simp add: multi_cell_def)

lemma multi_cell_right:
  "at_right_margin pdf \<Longrightarrow> has_glyph txt \<Longrightarrow>
   multi_cell 0 h txt pdf =
     (if latin1 txt then Inl FPDFException else Inl FPDFUnicodeEncodingException)"
  by (simp add: multi_cell_def)

subsection \<open>The experience loop\<close>

lemma jobs_ok_Nil: "jobs_ok []"
  by (simp add: jobs_ok_def)

lemma jobs_ok_Cons:
  "jobs_ok (job # jobs) =
     (list_all (\<lambda>c. latin1 (line_text c)) (entry_lines job) \<and> details job \<noteq> None \<and> jobs_ok jobs)"
  by (auto simp: jobs_ok_def)

lemma job_text:
  "dict_get (role job) '''' @ '' at '' @ dict_get (company job) ''''
     = line_text (role_company_line job)"
  by (simp add: role_company_line_def dict_get_def)

lemma role_company_cell:
  "Cell 0 5 (line_text (role_company_line job)) ''NEXT'' ''LMARGIN'' = role_company_line job"
  by (simp add: role_company_line_def)

lemma experience_loop_Cons:
  "experience_loop (job # jobs) pdf =
     and_then (cell 0 5 (line_text (role_company_line job)) ''NEXT'' ''LMARGIN'' pdf) (\<lambda>pdf.
     and_then (dict_index (details job) ''details'') (\<lambda>job_details_list.
     and_then (case job_details_list of
                 [] \<Rightarrow> Inr pdf
               | d # ds \<Rightarrow> multi_cell 0 5 (''- '' @ d) pdf) (\<lambda>pdf.
     experience_loop jobs pdf)))"
  by (simp only: experience_loop.simps Let_def job_text)

text \<open>
  The loop returns exactly on the lists whose texts are within Latin-1 and whose
  entries all have a details list, and it then appends the lines of the entries.
\<close>

lemma experience_loop_cases:
  "case experience_loop jobs pdf of
     Inl e \<Rightarrow> \<not> jobs_ok jobs
   | Inr pdf' \<Rightarrow> jobs_ok jobs \<and> calls pdf' = calls pdf @ concat (map entry_lines jobs)"
proof (induction jobs arbitrary: pdf)
  case Nil
  show ?case by (simp add: jobs_ok_Nil)
next
  case (Cons job jobs)
  let ?pdf1 = "pdf\<lparr>calls := calls pdf @ [role_company_line job], at_right_margin := False\<rparr>"
  show ?case
  proof (cases "details job")
    case None
    then show ?thesis
      unfolding experience_loop_Cons
      by (simp add: cell_LMARGIN and_then_simps dict_index_def jobs_ok_Cons)
  next
    case (Some ds)
    show ?thesis
    proof (cases ds)
      case Nil
      with Some Cons.IH [of ?pdf1] show ?thesis
        unfolding experience_loop_Cons
        by (simp add: cell_LMARGIN role_company_cell and_then_simps
              dict_index_def jobs_ok_Cons entry_lines_def[of job] split: sum.splits)
    next
      case c: (Cons a rest)
      let ?pdf2 = "pdf\<lparr>calls := calls pdf @ [role_company_line job, MultiCell 0 5 (''- '' @ a)],
                         at_right_margin := True\<rparr>"
      from Some c Cons.IH [of ?pdf2] show ?thesis
        unfolding experience_loop_Cons
        by (simp add: cell_LMARGIN role_company_cell multi_cell_left and_then_simps
              dict_index_def jobs_ok_Cons entry_lines_def[of job] latin1_simps
              split: sum.splits)
    qed
  qed
qed

subsection \<open>The education loop\<close>

lemma education_text:
  "dict_get (degree edu) ''N/A'' @ '' from '' @ dict_get (institution edu) ''N/A''
     @ '' ('' @ dict_get (year edu) ''N/A'' @ '')'' = line_text (education_line edu)"
  by (simp add: education_line_def or_na_def dict_get_def)

lemma education_cell: "MultiCell 0 5 (line_text (education_line edu)) = education_line edu"
  by (simp add: education_line_def)

lemma has_glyph_education: "has_glyph (line_text (education_line edu))"
  by (simp add: education_line_def has_glyph_def)

lemma education_loop_Cons:
  "education_loop (edu # edus) pdf =
     and_then (multi_cell 0 5 (line_text (education_line edu)) pdf)
       (\<lambda>pdf. education_loop edus pdf)"
  by (simp only: education_loop.simps education_text)

text \<open>
  Started at the left margin, the loop returns exactly on the lists of at most one
  entry whose text is within Latin-1: the first block leaves the cursor at the right
  margin, where a second block has no room.
\<close>

lemma education_loop_cases:
  assumes "\<not> at_right_margin pdf"
  shows "case education_loop edus pdf of
     Inl e \<Rightarrow> \<not> edus_ok edus
   | Inr pdf' \<Rightarrow> edus_ok edus \<and> calls pdf' = calls pdf @ map education_line edus"
proof (cases edus)
  case Nil
  then show ?thesis by (simp add: edus_ok_def)
next
  case (Cons e rest)
  let ?pdf1 = "pdf\<lparr>calls := calls pdf @ [education_line e], at_right_margin := True\<rparr>"
  have first: "multi_cell 0 5 (line_text (education_line e)) pdf =
      (if latin1 (line_text (education_line e)) then Inr ?pdf1
       else Inl FPDFUnicodeEncodingException)"
    by (simp only: multi_cell_left [OF assms] education_cell)
  show ?thesis
  proof (cases rest)
    case Nil
    with Cons have e: "edus = [e]" by simp
    show ?thesis
      unfolding e education_loop_Cons
      by (simp add: first and_then_simps edus_ok_def)
  next
    case c2: (Cons e2 rest2)
    have second: "multi_cell 0 5 (line_text (education_line e2)) ?pdf1 =
        (if latin1 (line_text (education_line e2)) then Inl FPDFException
         else Inl FPDFUnicodeEncodingException)"
      by (rule multi_cell_right) (simp_all add: has_glyph_education)
    from Cons c2 have e: "edus = e # e2 # rest2" by simp
    show ?thesis
      unfolding e education_loop_Cons
      by (simp add: first second and_then_simps edus_ok_def)
  qed
qed

subsection \<open>The statements of the renderer in sequence\<close>

lemma and_then_weak_cong: "r = r' \<Longrightarrow> and_then r f = and_then r' f"
  by simp

lemma and_then_if:
  "and_then (if c then Inr x else Inl e) f = (if c then f x else Inl e)"
  by (simp add: and_then_simps)

lemma and_then_experience_loop:
  "and_then (experience_loop jobs pdf) f =
     (if jobs_ok jobs then f (projr (experience_loop jobs pdf))
      else Inl (projl (experience_loop jobs pdf)))"
  using experience_loop_cases [of jobs pdf]
  by (cases "experience_loop jobs pdf") (simp_all add: and_then_simps)

lemma calls_experience_loop:
  "jobs_ok jobs \<Longrightarrow>
   calls (projr (experience_loop jobs pdf)) = calls pdf @ concat (map entry_lines jobs)"
  using experience_loop_cases [of jobs pdf]
  by (cases "experience_loop jobs pdf") simp_all

lemma and_then_education_loop:
  "\<not> at_right_margin pdf \<Longrightarrow>
   and_then (education_loop edus pdf) f =
     (if edus_ok edus then f (projr (education_loop edus pdf))
      else Inl (projl (education_loop edus pdf)))"
  using education_loop_cases [of pdf edus]
  by (cases "education_loop edus pdf") (simp_all add: and_then_simps)

lemma calls_education_loop:
  "\<not> at_right_margin pdf \<Longrightarrow> edus_ok edus \<Longrightarrow>
   calls (projr (education_loop edus pdf)) = calls pdf @ map education_line edus"
  using education_loop_cases [of pdf edus]
  by (cases "education_loop edus pdf") simp_all

lemma name_text: "dict_get (name d) ''Name Not Found'' = line_text (name_line d)"
  by (simp add: name_line_def)

lemma name_cell: "Cell 200 8 (line_text (name_line d)) ''NEXT'' ''LMARGIN'' = name_line d"
  by (simp add: name_line_def)

lemma title_text: "dict_get (title d) ''Title Not Found'' = line_text (title_line d)"
  by (simp add: title_line_def)

lemma title_cell: "Cell 200 6 (line_text (title_line d)) ''NEXT'' ''LMARGIN'' = title_line d"
  by (simp add: title_line_def)

lemma email_text:
  "''Email: '' @ dict_get (email (dict_get c empty_contact)) ''N/A''
     @ '' | Phone: '' @ dict_get (phone (dict_get c empty_contact)) ''N/A''
   = line_text (email_phone_line c)"
  by (cases c) (simp_all add: email_phone_line_def dict_get_def empty_contact_def or_na_def)

lemma email_cell: "Cell 0 5 (line_text (email_phone_line c)) ''NEXT'' ''LMARGIN'' = email_phone_line c"
  by (simp add: email_phone_line_def)

lemma linkedin_step:
  "(case linkedin (dict_get c empty_contact) of
      None \<Rightarrow> Inr pdf
    | Some l \<Rightarrow> if l = [] then Inr pdf
                else cell 0 5 (''LinkedIn: '' @ l) ''NEXT'' ''LMARGIN'' pdf)
   = (if list_all (\<lambda>c. latin1 (line_text c)) (linkedin_lines c)
      then Inr (pdf\<lparr>calls := calls pdf @ linkedin_lines c,
                     at_right_margin := at_right_margin pdf \<and> linkedin_lines c = []\<rparr>)
      else Inl FPDFUnicodeEncodingException)"
proof (cases c)
  case None
  then show ?thesis
    by (simp add: linkedin_lines_def dict_get_def empty_contact_def)
next
  case (Some ci)
  then show ?thesis
    by (cases "linkedin ci") (simp_all add: linkedin_lines_def dict_get_def cell_LMARGIN)
qed

lemma create_pdf_steps:
  "create_pdf d =
     and_then (cell 200 8 (line_text (name_line d)) ''NEXT'' ''LMARGIN''
                 (set_font ''Arial'' ''B'' 18 (add_page new_FPDF))) (\<lambda>pdf.
     and_then (cell 200 6 (line_text (title_line d)) ''NEXT'' ''LMARGIN''
                 (set_font ''Arial'' '''' 12 pdf)) (\<lambda>pdf.
     and_then (cell 0 5 (line_text (email_phone_line (contact d))) ''NEXT'' ''LMARGIN''
                 (set_font ''Arial'' '''' 9 pdf)) (\<lambda>pdf.
     and_then (if list_all (\<lambda>c. latin1 (line_text c)) (linkedin_lines (contact d))
               then Inr (pdf\<lparr>calls := calls pdf @ linkedin_lines (contact d),
                              at_right_margin :=
                                at_right_margin pdf \<and> linkedin_lines (contact d) = []\<rparr>)
               else Inl FPDFUnicodeEncodingException) (\<lambda>pdf.
     and_then (cell 200 5 ''PROFESSIONAL SUMMARY'' ''NEXT'' ''LMARGIN''
                 (set_font ''Arial'' ''B'' 10 (ln 5 pdf))) (\<lambda>pdf.
     and_then (multi_cell 0 5 (dict_get (summary d) '''') (set_font ''Arial'' '''' 10 pdf)) (\<lambda>pdf.
     and_then (cell 200 5 ''TECHNICAL SKILLS'' ''NEXT'' ''LMARGIN''
                 (set_font ''Arial'' ''B'' 10 (ln 5 pdf))) (\<lambda>pdf.
     and_then (multi_cell 0 5 (join '' | '' (dict_get (skills d) []))
                 (set_font ''Arial'' '''' 10 pdf)) (\<lambda>pdf.
     and_then (cell 200 5 ''EXPERIENCE'' ''NEXT'' ''LMARGIN''
                 (set_font ''Arial'' ''B'' 10 (ln 5 pdf))) (\<lambda>pdf.
     and_then (experience_loop (dict_get (experience d) []) (set_font ''Arial'' '''' 10 pdf)) (\<lambda>pdf.
     and_then (cell 200 5 ''EDUCATION'' ''NEXT'' ''LMARGIN''
                 (set_font ''Arial'' ''B'' 10 (ln 5 pdf))) (\<lambda>pdf.
     and_then (education_loop (dict_get (education d) []) (set_font ''Arial'' '''' 10 pdf)) (\<lambda>pdf.
     Inr (pdf_output pdf)))))))))))))"
  by (simp only: create_pdf_def Let_def name_text title_text email_text linkedin_step)

lemma renderable_iff:
  "renderable d \<longleftrightarrow>
     texts_ok d \<and> jobs_ok (dict_get (experience d) []) \<and> edus_ok (dict_get (education d) [])"
  by (auto simp: renderable_def rendering_def texts_ok_def jobs_ok_def edus_ok_def heading_def
        latin1_simps)

text \<open>
  On a renderable document no statement raises and the calls are those of
  \<open>rendering\<close>; on any other document some statement raises.
\<close>

lemma create_pdf_renderable:
  assumes "renderable d"
  shows "create_pdf d = Inr (rendering d)"
proof -
  from assms have t: "texts_ok d" and j: "jobs_ok (dict_get (experience d) [])"
    and e: "edus_ok (dict_get (education d) [])"
    by (simp_all add: renderable_iff)
  from t show ?thesis
    unfolding create_pdf_steps
    by (simp add: texts_ok_def cell_LMARGIN multi_cell_left and_then_if and_then_simps
          and_then_experience_loop and_then_education_loop calls_experience_loop
          calls_education_loop j e new_FPDF_def add_page_def set_font_def ln_def pdf_output_def
          latin1_simps name_cell title_cell email_cell rendering_def heading_def
        cong: and_then_weak_cong)
qed

lemma if_Inl_eq_Inr: "((if c then x else Inl e) = Inr y) = (c \<and> x = Inr y)"
  by simp

lemma create_pdf_Inr_renderable:
  assumes "create_pdf d = Inr pdf"
  shows "renderable d"
proof -
  from assms have "texts_ok d \<and> jobs_ok (dict_get (experience d) [])
      \<and> edus_ok (dict_get (education d) [])"
    unfolding create_pdf_steps
    by (simp add: texts_ok_def cell_LMARGIN multi_cell_left and_then_if and_then_simps
          and_then_experience_loop and_then_education_loop new_FPDF_def add_page_def
          set_font_def ln_def latin1_simps if_Inl_eq_Inr cong: and_then_weak_cong)
  then show ?thesis by (simp add: renderable_iff)
qed

text \<open>\<^verbatim>\<open>create_pdf\<close> returns exactly on the renderable documents.\<close>

lemma create_pdf_succeeds_iff: "(\<exists>pdf. create_pdf d = Inr pdf) \<longleftrightarrow> renderable d"
  using create_pdf_renderable create_pdf_Inr_renderable by blast

lemma create_pdf_rendering: "create_pdf d = Inr pdf \<Longrightarrow> pdf = rendering d"
  using create_pdf_renderable [OF create_pdf_Inr_renderable] by fastforce

subsection \<open>The lines of a rendering\<close>

lemma text_entry_lines: "filter is_text (entry_lines job) = entry_lines job"
  by (cases "details job"; cases "the (details job)")
    (simp_all add: entry_lines_def role_company_line_def)

lemma text_linkedin_lines: "filter is_text (linkedin_lines c) = linkedin_lines c"
  by (simp add: linkedin_lines_def split: option.splits)

lemma rendering_text_lines:
  "text_lines (rendering d) =
     [name_line d, title_line d, email_phone_line (contact d)] @ linkedin_lines (contact d)
     @ [heading ''PROFESSIONAL SUMMARY'', MultiCell 0 5 (dict_get (summary d) ''''),
        heading ''TECHNICAL SKILLS'', MultiCell 0 5 (join '' | '' (dict_get (skills d) [])),
        heading ''EXPERIENCE'']
     @ concat (map entry_lines (dict_get (experience d) []))
     @ [heading ''EDUCATION'']
     @ map education_line (dict_get (education d) [])"
proof -
  have jobs: "filter is_text (concat (map entry_lines js)) = concat (map entry_lines js)" for js
    by (induction js) (simp_all add: text_entry_lines)
  have edus: "filter is_text (map education_line es) = map education_line es" for es
    by (induction es) (simp_all add: education_line_def)
  show ?thesis
    unfolding text_lines_def rendering_def
    by (simp add: jobs edus name_line_def title_line_def email_phone_line_def heading_def
          text_linkedin_lines)
qed

lemma section_ofI:
  assumes "text_lines pdf = pre @ heading t # body @ rest"
    and "heading t \<notin> set pre"
    and "\<And>c. c \<in> set body \<Longrightarrow> \<not> is_heading c"
    and "rest = [] \<or> is_heading (hd rest)"
  shows "section_of t pdf = Some body"
proof -
  have "dropWhile (\<lambda>c. c \<noteq> heading t) (pre @ heading t # body @ rest) = heading t # body @ rest"
    using assms(2) by (induction pre) auto
  moreover have "takeWhile (\<lambda>c. \<not> is_heading c) (body @ rest) = body"
  proof (cases rest)
    case Nil
    then show ?thesis using assms(3) by simp
  next
    case (Cons r rs)
    with assms(4) have "is_heading r" by simp
    with Cons assms(3) show ?thesis by (simp add: takeWhile_tail)
  qed
  ultimately show ?thesis
    by (simp add: section_of_def assms(1))
qed

lemma header_blockI:
  assumes "text_lines pdf = pre @ h # rest"
    and "is_heading h"
    and "\<And>c. c \<in> set pre \<Longrightarrow> \<not> is_heading c"
  shows "header_block pdf = pre"
  using assms by (simp add: header_block_def takeWhile_tail)

lemma plain_linkedin_lines: "c \<in> set (linkedin_lines ci) \<Longrightarrow> \<not> is_heading c"
  by (auto simp: linkedin_lines_def split: option.splits if_splits)

lemma plain_entry_lines: "c \<in> set (entry_lines job) \<Longrightarrow> \<not> is_heading c"
  by (cases "details job"; cases "the (details job)")
    (auto simp: entry_lines_def role_company_line_def)

lemma plain_experience: "c \<in> set (concat (map entry_lines jobs)) \<Longrightarrow> \<not> is_heading c"
  by (auto dest: plain_entry_lines)

lemma is_heading_heading: "is_heading (heading t)"
  by (simp add: heading_def)

lemma heading_inject: "heading s = heading t \<longleftrightarrow> s = t"
  by (simp add: heading_def)

lemma heading_notin_linkedin: "heading t \<notin> set (linkedin_lines c)"
  using plain_linkedin_lines is_heading_heading by blast

lemma heading_neq_top: "heading t \<noteq> name_line d" "heading t \<noteq> title_line d"
  "heading t \<noteq> email_phone_line c" "heading t \<noteq> MultiCell w h s"
  by (simp_all add: heading_def name_line_def title_line_def email_phone_line_def)

lemma plain_top: "\<not> is_heading (name_line d)" "\<not> is_heading (title_line d)"
  "\<not> is_heading (email_phone_line c)"
  by (simp_all add: name_line_def title_line_def email_phone_line_def)

lemma rendering_header_block:
  "header_block (rendering d) =
    [name_line d, title_line d, email_phone_line (contact d)] @ linkedin_lines (contact d)"
proof -
  let ?pre = "[name_line d, title_line d, email_phone_line (contact d)] @ linkedin_lines (contact d)"
  let ?rest = "[MultiCell 0 5 (dict_get (summary d) ''''),
        heading ''TECHNICAL SKILLS'', MultiCell 0 5 (join '' | '' (dict_get (skills d) [])),
        heading ''EXPERIENCE'']
     @ concat (map entry_lines (dict_get (experience d) []))
     @ [heading ''EDUCATION'']
     @ map education_line (dict_get (education d) [])"
  have lines: "text_lines (rendering d) = ?pre @ heading ''PROFESSIONAL SUMMARY'' # ?rest"
    using rendering_text_lines [of d] by simp
  show ?thesis
    by (rule header_blockI [OF lines is_heading_heading])
      (use plain_top plain_linkedin_lines in auto)
qed

lemma rendering_skills_section:
  "section_of ''TECHNICAL SKILLS'' (rendering d)
     = Some [MultiCell 0 5 (join '' | '' (dict_get (skills d) []))]"
proof -
  let ?pre = "[name_line d, title_line d, email_phone_line (contact d)] @ linkedin_lines (contact d)
     @ [heading ''PROFESSIONAL SUMMARY'', MultiCell 0 5 (dict_get (summary d) '''')]"
  let ?body = "[MultiCell 0 5 (join '' | '' (dict_get (skills d) []))]"
  let ?rest = "heading ''EXPERIENCE'' # concat (map entry_lines (dict_get (experience d) []))
     @ [heading ''EDUCATION''] @ map education_line (dict_get (education d) [])"
  have lines: "text_lines (rendering d) = ?pre @ heading ''TECHNICAL SKILLS'' # ?body @ ?rest"
    using rendering_text_lines [of d] by simp
  have pre: "heading ''TECHNICAL SKILLS'' \<notin> set ?pre"
    by (simp add: heading_neq_top heading_notin_linkedin heading_inject)
  show ?thesis
    by (rule section_ofI [OF lines pre]) (simp_all add: is_heading_heading)
qed

lemma rendering_experience_section:
  "section_of ''EXPERIENCE'' (rendering d)
     = Some (concat (map entry_lines (dict_get (experience d) [])))"
proof -
  let ?pre = "[name_line d, title_line d, email_phone_line (contact d)] @ linkedin_lines (contact d)
     @ [heading ''PROFESSIONAL SUMMARY'', MultiCell 0 5 (dict_get (summary d) ''''),
        heading ''TECHNICAL SKILLS'', MultiCell 0 5 (join '' | '' (dict_get (skills d) []))]"
  let ?body = "concat (map entry_lines (dict_get (experience d) []))"
  let ?rest = "heading ''EDUCATION'' # map education_line (dict_get (education d) [])"
  have lines: "text_lines (rendering d) = ?pre @ heading ''EXPERIENCE'' # ?body @ ?rest"
    using rendering_text_lines [of d] by simp
  have pre: "heading ''EXPERIENCE'' \<notin> set ?pre"
    by (simp add: heading_neq_top heading_notin_linkedin heading_inject)
  show ?thesis
    by (rule section_ofI [OF lines pre]) (simp_all add: is_heading_heading plain_experience)
qed

lemma join_skills_block: "join '' | '' ss = skills_block ss"
proof (induction ss)
  case Nil
  show ?case by simp
next
  case (Cons s rest)
  then show ?case by (cases rest) simp_all
qed

subsection \<open>The sample documents\<close>

lemmas engine_defs = new_FPDF_def add_page_def set_font_def cell_def ln_def multi_cell_def
  pdf_output_def and_then_def latin1_simps has_glyph_def dict_get_def dict_index_def
  empty_contact_def

lemmas line_defs = rendering_def name_line_def title_line_def email_phone_line_def
  linkedin_lines_def heading_def entry_lines_def role_company_line_def education_line_def
  or_na_def dict_get_def latin1_simps

lemma create_pdf_jane: "create_pdf doc_jane = Inr pdf_jane"
  by (simp add: create_pdf_def doc_jane_def pdf_jane_def engine_defs)

lemma create_pdf_empty_linkedin: "create_pdf doc_empty_linkedin = Inr pdf_empty_linkedin"
  by (simp add: create_pdf_def doc_empty_linkedin_def pdf_empty_linkedin_def
        contact_empty_linkedin_def engine_defs)

lemma create_pdf_header_block:
  "create_pdf d = Inr pdf \<Longrightarrow>
   header_block pdf =
     [name_line d, title_line d, email_phone_line (contact d)] @ linkedin_lines (contact d)"
  using create_pdf_rendering [of d pdf] by (simp add: rendering_header_block)


subsection \<open>Stripping the fence markers\<close>

lemma replace_miss:
  "old \<noteq> [] \<Longrightarrow> \<not> prefix old (c # cs) \<Longrightarrow> replace old new (c # cs) = c # replace old new cs"
  by simp

lemma strip_open_fence:
  \<open>\<not> sublist ''```'' body \<Longrightarrow> replace ''```json'' '''' (body @ ''```'') = body @ ''```''\<close>
proof (induction body)
  case Nil
  show ?case by simp
next
  case (Cons c cs)
  then have np: \<open>\<not> prefix ''```'' (c # cs)\<close> and ns: \<open>\<not> sublist ''```'' cs\<close>
    by (simp_all add: sublist_Cons_right)
  have \<open>\<not> prefix ''```json'' (c # (cs @ ''```''))\<close>
  proof (cases cs)
    case Nil
    then show ?thesis by simp
  next
    case (Cons a cs2)
    with np show ?thesis by (cases cs2) auto
  qed
  then have \<open>replace ''```json'' '''' (c # (cs @ ''```'')) = c # replace ''```json'' '''' (cs @ ''```'')\<close>
    by (intro replace_miss) simp_all
  with Cons.IH [OF ns] show ?case by (simp only: append_Cons)
qed

lemma strip_close_fence:
  \<open>\<not> sublist ''```'' body \<Longrightarrow> replace ''```'' '''' (body @ ''```'') = body\<close>
proof (induction body)
  case Nil
  show ?case by simp
next
  case (Cons c cs)
  then have np: \<open>\<not> prefix ''```'' (c # cs)\<close> and ns: \<open>\<not> sublist ''```'' cs\<close>
    by (simp_all add: sublist_Cons_right)
  show ?case
  proof (cases \<open>prefix ''```'' (c # (cs @ ''```''))\<close>)
    case False
    then have \<open>replace ''```'' '''' (c # (cs @ ''```'')) = c # replace ''```'' '''' (cs @ ''```'')\<close>
      by (intro replace_miss) simp_all
    with Cons.IH [OF ns] show ?thesis by (simp only: append_Cons)
  next
    case True
    show ?thesis
    proof (cases cs)
      case Nil
      with True show ?thesis by simp
    next
      case c1: (Cons a cs2)
      show ?thesis
      proof (cases cs2)
        case Nil
        with True c1 show ?thesis by simp
      next
        case (Cons b cs3)
        with True c1 have \<open>prefix ''```'' (c # cs)\<close> by auto
        with np show ?thesis by contradiction
      qed
    qed
  qed
qed

lemma strip_fences:
  assumes \<open>\<not> sublist ''```'' body\<close>
  shows \<open>clean_text (''```json'' @ body @ ''```'') = body\<close>
proof -
  have \<open>replace ''```json'' '''' (''```json'' @ body @ ''```'') = replace ''```json'' '''' (body @ ''```'')\<close>
    by simp
  then show ?thesis
    by (simp only: strip_open_fence [OF assms] strip_close_fence [OF assms])
qed

section \<open>Properties of the renderer\<close>

text \<open>
  C1 (the code departs from the claim). The claim: rendering succeeds on every
  well-formed document, in particular on one whose experience entry has no
  \<^verbatim>\<open>details\<close> field. On such a document \<^verbatim>\<open>job['details']\<close> raises \<^verbatim>\<open>KeyError\<close> and no
  bytes are returned.
\<close>

theorem create_pdf_missing_details_raises:
  "create_pdf doc_no_details = Inl (KeyError ''details'')"
  by (simp add: create_pdf_def doc_no_details_def engine_defs)

text \<open>
  The claim C5 as it is written speaks of every document: an entry with an empty
  details list has its role/company line in the rendered experience section. Here the
  entry has an empty details list and a role with a character beyond Latin-1; the
  cell of line 107 raises \<^verbatim>\<open>FPDFUnicodeEncodingException\<close>, and there is no rendered
  section and no line.
\<close>

theorem experience_wide_role_counterexample:
  "experience doc_wide_role = Some [job_wide_role]
   \<and> details job_wide_role = Some []
   \<and> create_pdf doc_wide_role = Inl FPDFUnicodeEncodingException"
  by (simp add: create_pdf_def doc_wide_role_def job_wide_role_def engine_defs)

text \<open>
  C5, as the code has it. \<^verbatim>\<open>create_pdf\<close> returns exactly on the documents that are
  renderable, and in what it returns the experience section holds, for each entry in
  order, its role/company line, followed by nothing when the details list is empty
  and by exactly one line, the dash marker and the first detail item, when it is not
  (so the details \<open>[''A'', ''B'']\<close> give the single line \<open>''- A''\<close>). The place of a
  line on the page is not part of the statement: a role/company cell that follows a
  detail line is issued while the cursor stands at the right margin.
\<close>

theorem experience_section_first_detail_only:
  "(renderable d \<longleftrightarrow> (\<exists>pdf. create_pdf d = Inr pdf))
   \<and> (create_pdf d = Inr pdf \<longrightarrow>
        section_of ''EXPERIENCE'' pdf
          = Some (concat (map entry_lines (case experience d of None \<Rightarrow> [] | Some jobs \<Rightarrow> jobs))))
   \<and> entry_lines (job\<lparr>details := Some []\<rparr>) = [role_company_line job]
   \<and> entry_lines (job\<lparr>details := Some (a # rest)\<rparr>)
        = [role_company_line job, MultiCell 0 5 (''- '' @ a)]"
proof -
  have "section_of ''EXPERIENCE'' pdf
          = Some (concat (map entry_lines (case experience d of None \<Rightarrow> [] | Some jobs \<Rightarrow> jobs)))"
    if "create_pdf d = Inr pdf"
    using create_pdf_rendering [OF that] rendering_experience_section [of d]
    by (simp add: dict_get_def)
  then show ?thesis
    by (simp add: create_pdf_succeeds_iff entry_lines_def role_company_line_def)
qed

text \<open>
  An entry with an empty details list and one with the details \<open>[''A'', ''B'']\<close>.
\<close>

theorem experience_section_first_detail_only_witness:
  "renderable doc_two_jobs
   \<and> (\<exists>pdf. create_pdf doc_two_jobs = Inr pdf
         \<and> section_of ''EXPERIENCE'' pdf
             = Some [Cell 0 5 ''Developer at Acme'' ''NEXT'' ''LMARGIN'',
                     Cell 0 5 ''Engineer at PTCL'' ''NEXT'' ''LMARGIN'',
                     MultiCell 0 5 ''- A''])"
proof -
  have r: "renderable doc_two_jobs"
    by (simp add: renderable_def doc_two_jobs_def line_defs)
  with experience_section_first_detail_only [where d = doc_two_jobs]
  obtain pdf where ok: "create_pdf doc_two_jobs = Inr pdf"
    by blast
  with experience_section_first_detail_only [where d = doc_two_jobs and pdf = pdf]
  have "section_of ''EXPERIENCE'' pdf
          = Some (concat (map entry_lines
              (case experience doc_two_jobs of None \<Rightarrow> [] | Some jobs \<Rightarrow> jobs)))"
    by blast
  then have "section_of ''EXPERIENCE'' pdf
         = Some [Cell 0 5 ''Developer at Acme'' ''NEXT'' ''LMARGIN'',
                 Cell 0 5 ''Engineer at PTCL'' ''NEXT'' ''LMARGIN'',
                 MultiCell 0 5 ''- A'']"
    by (simp add: doc_two_jobs_def entry_lines_def role_company_line_def)
  with r ok show ?thesis by blast
qed

text \<open>
  The claim C6 as it is written: a \<^verbatim>\<open>linkedin\<close> that is present, the empty string
  included, gives exactly one LinkedIn line. With the empty string present the
  rendering succeeds and its header block has no LinkedIn line: the guard of line 81
  tests the value, not the presence of the key.
\<close>

theorem linkedin_empty_string_counterexample:
  "contact doc_empty_linkedin = Some contact_empty_linkedin
   \<and> linkedin contact_empty_linkedin = Some ''''
   \<and> create_pdf doc_empty_linkedin = Inr pdf_empty_linkedin
   \<and> filter is_linkedin_line (header_block pdf_empty_linkedin) = []"
proof -
  have "filter is_linkedin_line (header_block pdf_empty_linkedin) = []"
    by (simp add: header_block_def text_lines_def pdf_empty_linkedin_def)
  then show ?thesis
    by (simp add: create_pdf_empty_linkedin)
      (simp add: doc_empty_linkedin_def contact_empty_linkedin_def)
qed

text \<open>
  C6, as the code has it. The header block of a rendered document has a LinkedIn line
  exactly when \<^verbatim>\<open>contact.linkedin\<close> is present and not the empty string, and then
  exactly one, the label followed by the value. An absent contact, an absent
  \<^verbatim>\<open>linkedin\<close> and an empty \<^verbatim>\<open>linkedin\<close> give none.
\<close>

theorem linkedin_line_only_when_nonempty:
  assumes "create_pdf d = Inr pdf"
  shows "filter is_linkedin_line (header_block pdf) = linkedin_lines (contact d)
         \<and> length (filter is_linkedin_line (header_block pdf))
             = (case contact d of
                  None \<Rightarrow> 0
                | Some ci \<Rightarrow>
                   (case linkedin ci of None \<Rightarrow> 0 | Some l \<Rightarrow> if l = [] then 0 else 1))"
proof -
  have top: "filter is_linkedin_line [name_line d, title_line d, email_phone_line (contact d)] = []"
    by (simp add: name_line_def title_line_def email_phone_line_def)
  have own: "filter is_linkedin_line (linkedin_lines (contact d)) = linkedin_lines (contact d)"
    by (simp add: linkedin_lines_def split: option.splits)
  have eq: "filter is_linkedin_line (header_block pdf) = linkedin_lines (contact d)"
    unfolding create_pdf_header_block [OF assms] filter_append top own by simp
  show ?thesis
    unfolding eq by (simp add: linkedin_lines_def split: option.splits)
qed

text \<open>A contact with a LinkedIn address.\<close>

theorem linkedin_line_only_when_nonempty_witness:
  "\<exists>pdf. create_pdf doc_linkedin = Inr pdf
     \<and> filter is_linkedin_line (header_block pdf)
         = [Cell 0 5 ''LinkedIn: linkedin.com/in/jane'' ''NEXT'' ''LMARGIN'']"
proof -
  have "renderable doc_linkedin"
    by (simp add: renderable_def doc_linkedin_def line_defs)
  then obtain pdf where ok: "create_pdf doc_linkedin = Inr pdf"
    using create_pdf_succeeds_iff [of doc_linkedin] by blast
  from linkedin_line_only_when_nonempty [OF ok]
  have "filter is_linkedin_line (header_block pdf)
         = [Cell 0 5 ''LinkedIn: linkedin.com/in/jane'' ''NEXT'' ''LMARGIN'']"
    by (simp add: doc_linkedin_def linkedin_lines_def)
  with ok show ?thesis by blast
qed

text \<open>
  The claim C8 as it is written speaks of every document: the rendered skills
  section holds all skills joined into one block. Here the second of two skills has a
  character beyond Latin-1; the \<^verbatim>\<open>multi_cell\<close> of line 97 raises
  \<^verbatim>\<open>FPDFUnicodeEncodingException\<close>, and there is no rendered section and no block.
\<close>

theorem skills_wide_skill_counterexample:
  "skills doc_wide_skill = Some [''Go'', ''C'' @ [CHR 0xE2, CHR 0x99, CHR 0xAF]]
   \<and> create_pdf doc_wide_skill = Inl FPDFUnicodeEncodingException"
  by (simp add: create_pdf_def doc_wide_skill_def engine_defs)

text \<open>
  C8, as the code has it. \<^verbatim>\<open>create_pdf\<close> returns exactly on the documents that are
  renderable, and in what it returns the section under the header \<open>TECHNICAL SKILLS\<close>
  is present and is one block: all skills, in order, with \<open>'' | ''\<close> between each two
  of them (\<open>skills_block\<close>, which is not the \<open>join\<close> of the code). For an absent or
  empty list of skills the block is the empty text, and the section is still there.
\<close>

theorem skills_section_joined:
  "(renderable d \<longleftrightarrow> (\<exists>pdf. create_pdf d = Inr pdf))
   \<and> (create_pdf d = Inr pdf \<longrightarrow>
        section_of ''TECHNICAL SKILLS'' pdf
          = Some [MultiCell 0 5 (skills_block (case skills d of None \<Rightarrow> [] | Some ss \<Rightarrow> ss))])"
proof -
  have "section_of ''TECHNICAL SKILLS'' pdf
          = Some [MultiCell 0 5 (skills_block (case skills d of None \<Rightarrow> [] | Some ss \<Rightarrow> ss))]"
    if "create_pdf d = Inr pdf"
    using create_pdf_rendering [OF that] rendering_skills_section [of d]
    by (simp add: dict_get_def join_skills_block)
  then show ?thesis
    by (simp add: create_pdf_succeeds_iff)
qed

text \<open>
  Four skills give the block \<open>Go | SQL | Rust | C\<close>. In the example of the
  specification the skills \<open>Go\<close> and \<open>SQL\<close> give the block \<open>Go | SQL\<close>, and the
  experience and education sections are headers with empty bodies.
\<close>

theorem skills_section_joined_witness:
  "renderable doc_four_skills
   \<and> (\<exists>pdf. create_pdf doc_four_skills = Inr pdf
         \<and> section_of ''TECHNICAL SKILLS'' pdf = Some [MultiCell 0 5 ''Go | SQL | Rust | C''])
   \<and> create_pdf doc_jane = Inr pdf_jane
   \<and> section_of ''TECHNICAL SKILLS'' pdf_jane = Some [MultiCell 0 5 ''Go | SQL'']
   \<and> section_of ''EXPERIENCE'' pdf_jane = Some []
   \<and> section_of ''EDUCATION'' pdf_jane = Some []"
proof -
  have r: "renderable doc_four_skills"
    by (simp add: renderable_def doc_four_skills_def line_defs)
  with skills_section_joined [where d = doc_four_skills]
  obtain pdf where ok: "create_pdf doc_four_skills = Inr pdf"
    by blast
  with skills_section_joined [where d = doc_four_skills and pdf = pdf]
  have "section_of ''TECHNICAL SKILLS'' pdf
          = Some [MultiCell 0 5
              (skills_block (case skills doc_four_skills of None \<Rightarrow> [] | Some ss \<Rightarrow> ss))]"
    by blast
  then have four: "section_of ''TECHNICAL SKILLS'' pdf = Some [MultiCell 0 5 ''Go | SQL | Rust | C'']"
    by (simp add: doc_four_skills_def)
  from skills_section_joined [where d = doc_jane and pdf = pdf_jane] create_pdf_jane
  have "section_of ''TECHNICAL SKILLS'' pdf_jane
          = Some [MultiCell 0 5 (skills_block (case skills doc_jane of None \<Rightarrow> [] | Some ss \<Rightarrow> ss))]"
    by blast
  then have jane: "section_of ''TECHNICAL SKILLS'' pdf_jane = Some [MultiCell 0 5 ''Go | SQL'']"
    by (simp add: doc_jane_def)
  have exp: "section_of ''EXPERIENCE'' pdf_jane = Some []"
    by (simp add: section_of_def text_lines_def pdf_jane_def heading_def)
  have edu: "section_of ''EDUCATION'' pdf_jane = Some []"
    by (simp add: section_of_def text_lines_def pdf_jane_def heading_def)
  from r ok four jane exp edu create_pdf_jane show ?thesis by blast
qed

text \<open>
  C9 (the code departs from the claim). The claim: the rendered education section
  holds one line for each education entry, in order. On a document with two
  education entries the first \<^verbatim>\<open>multi_cell\<close> of line 119 leaves the cursor at the right
  margin (the call passes no \<^verbatim>\<open>new_x\<close>, unlike every \<^verbatim>\<open>cell\<close> call of the function),
  the second has no horizontal space and raises \<^verbatim>\<open>FPDFException\<close>, and no bytes are
  returned: the section of the claim is never rendered.
\<close>

theorem create_pdf_second_education_entry_raises:
  "create_pdf doc_education = Inl FPDFException"
  by (simp add: create_pdf_def doc_education_def engine_defs)

text \<open>
  The claim C10 as it is written speaks of every document: the header block has
  the combined email/phone line. Here the contact has an email and no phone, and the
  name has a character beyond Latin-1; the cell of line 73 raises
  \<^verbatim>\<open>FPDFUnicodeEncodingException\<close> before the contact is read, and there is no header
  block and no line.
\<close>

theorem header_wide_name_counterexample:
  "contact doc_wide_name = Some contact_email_only
   \<and> email contact_email_only = Some ''lukasz@example.com''
   \<and> phone contact_email_only = None
   \<and> create_pdf doc_wide_name = Inl FPDFUnicodeEncodingException"
  by (simp add: create_pdf_def doc_wide_name_def contact_email_only_def engine_defs)

text \<open>
  C10, as the code has it. \<^verbatim>\<open>create_pdf\<close> returns exactly on the documents that are
  renderable, and the header block of what it returns starts with the name line, the
  title line and the combined line \<open>Email: ... | Phone: ...\<close>, in which \<open>N/A\<close> stands
  for an absent email and for an absent phone. The line is there when the contact
  object is absent altogether, and then reads \<open>Email: N/A | Phone: N/A\<close>.
\<close>

theorem email_phone_line_in_header:
  "(renderable d \<longleftrightarrow> (\<exists>pdf. create_pdf d = Inr pdf))
   \<and> (create_pdf d = Inr pdf \<longrightarrow>
        take 3 (header_block pdf) = [name_line d, title_line d, email_phone_line (contact d)])
   \<and> email_phone_line None = Cell 0 5 ''Email: N/A | Phone: N/A'' ''NEXT'' ''LMARGIN''"
proof -
  have "take 3 (header_block pdf) = [name_line d, title_line d, email_phone_line (contact d)]"
    if "create_pdf d = Inr pdf"
    by (simp add: create_pdf_header_block [OF that])
  then show ?thesis
    by (simp add: create_pdf_succeeds_iff email_phone_line_def)
qed

text \<open>A contact with an email and no phone, and a document with no contact object.\<close>

theorem email_phone_line_in_header_witness:
  "renderable doc_empty_linkedin
   \<and> create_pdf doc_empty_linkedin = Inr pdf_empty_linkedin
   \<and> take 3 (header_block pdf_empty_linkedin)
       = [Cell 200 8 ''Jane Doe'' ''NEXT'' ''LMARGIN'',
          Cell 200 6 ''Title Not Found'' ''NEXT'' ''LMARGIN'',
          Cell 0 5 ''Email: jane@example.com | Phone: N/A'' ''NEXT'' ''LMARGIN'']
   \<and> contact doc_jane = None
   \<and> create_pdf doc_jane = Inr pdf_jane
   \<and> take 3 (header_block pdf_jane)
       = [Cell 200 8 ''Jane Doe'' ''NEXT'' ''LMARGIN'',
          Cell 200 6 ''Title Not Found'' ''NEXT'' ''LMARGIN'',
          Cell 0 5 ''Email: N/A | Phone: N/A'' ''NEXT'' ''LMARGIN'']"
proof -
  from email_phone_line_in_header [where d = doc_empty_linkedin] create_pdf_empty_linkedin
  have r: "renderable doc_empty_linkedin"
    by blast
  from email_phone_line_in_header [where d = doc_empty_linkedin and pdf = pdf_empty_linkedin]
    create_pdf_empty_linkedin
  have "take 3 (header_block pdf_empty_linkedin)
       = [name_line doc_empty_linkedin, title_line doc_empty_linkedin,
          email_phone_line (contact doc_empty_linkedin)]"
    by blast
  then have one: "take 3 (header_block pdf_empty_linkedin)
       = [Cell 200 8 ''Jane Doe'' ''NEXT'' ''LMARGIN'',
          Cell 200 6 ''Title Not Found'' ''NEXT'' ''LMARGIN'',
          Cell 0 5 ''Email: jane@example.com | Phone: N/A'' ''NEXT'' ''LMARGIN'']"
    by (simp add: doc_empty_linkedin_def contact_empty_linkedin_def name_line_def title_line_def
          email_phone_line_def or_na_def dict_get_def)
  from email_phone_line_in_header [where d = doc_jane and pdf = pdf_jane] create_pdf_jane
  have "take 3 (header_block pdf_jane)
       = [name_line doc_jane, title_line doc_jane, email_phone_line (contact doc_jane)]"
    by blast
  then have two: "take 3 (header_block pdf_jane)
       = [Cell 200 8 ''Jane Doe'' ''NEXT'' ''LMARGIN'',
          Cell 200 6 ''Title Not Found'' ''NEXT'' ''LMARGIN'',
          Cell 0 5 ''Email: N/A | Phone: N/A'' ''NEXT'' ''LMARGIN'']"
    by (simp add: doc_jane_def name_line_def title_line_def email_phone_line_def dict_get_def)
  from r one two create_pdf_empty_linkedin create_pdf_jane show ?thesis
    by (simp add: doc_jane_def)
qed

section \<open>Properties of the transformer\<close>

text \<open>
  The claim C2 as it is written: a response that is valid JSON and does not have the
  shape of a resume document gives a generation error and is never returned as a
  document. The backend answers with the array \<^verbatim>\<open>["Jane Doe"]\<close>: the decoder accepts
  it, no check of the shape follows, and the array is the result.
\<close>

theorem schema_violation_counterexample:
  \<open>get_ai_resume (backend_returns ''["Jane Doe"]'') loads_sample sample_request ''Corporate''
     = JArr [JStr ''Jane Doe'']
   \<and> \<not> resume_shape (JArr [JStr ''Jane Doe''])
   \<and> \<not> is_generation_error (JArr [JStr ''Jane Doe''])\<close>
  by (simp add: get_ai_resume_def backend_returns_def loads_sample_def resume_shape_def)

text \<open>
  C2, as the code has it. Whenever the backend answers and the text left after the
  fence markers are removed decodes, \<^verbatim>\<open>get_ai_resume\<close> returns the decoded value as
  it is, whatever its shape: the function checks no schema.
\<close>

theorem decoded_value_returned_unchecked:
  assumes "generate_content (prompt_text raw_text style) = Inr response_text"
    and "loads (clean_text response_text) = Inr parsed"
  shows "get_ai_resume generate_content loads raw_text style = parsed"
  using assms by (simp add: get_ai_resume_def)

text \<open>A backend that answers with a bare JSON object.\<close>

theorem decoded_value_returned_unchecked_witness:
  \<open>get_ai_resume (backend_returns json_jane) loads_sample sample_request ''Corporate''
     = JObj [(''name'', JStr ''Jane Doe'')]\<close>
proof -
  have gen: "backend_returns json_jane (prompt_text sample_request ''Corporate'') = Inr json_jane"
    by (simp add: backend_returns_def)
  have dec: "loads_sample (clean_text json_jane) = Inr (JObj [(''name'', JStr ''Jane Doe'')])"
    by (simp add: loads_sample_def json_jane_def)
  show ?thesis
    by (rule decoded_value_returned_unchecked
          [of "backend_returns json_jane" sample_request _ json_jane loads_sample, OF gen dec])
qed

text \<open>
  The claim C3 as it is written: a response whose text is not valid JSON gives an
  error result. The backend answers with the word \<^verbatim>\<open>NaN\<close>. No JSON value opens with
  that letter, so the text is not valid JSON; Python's decoder accepts the word and
  returns the float \<^verbatim>\<open>nan\<close>, no exception is raised, and the float is the result: not
  an error result, and not a resume document.
\<close>

theorem nan_response_counterexample:
  \<open>\<not> opens_json_value (clean_text ''NaN'')
   \<and> get_ai_resume (backend_returns ''NaN'') loads_sample sample_request ''Corporate'' = JNaN
   \<and> \<not> is_generation_error JNaN
   \<and> \<not> resume_shape JNaN\<close>
  by (simp add: get_ai_resume_def backend_returns_def loads_sample_def resume_shape_def
        opens_json_value_def json_jane_def json_fence_inside_def)

text \<open>
  C3, as the code has it. An exception of the backend call, and a response whose
  text, once the fence markers are removed, the decoder rejects by raising, both end
  in the error dictionary that carries the message of the exception. The function
  returns that value (its result has no exceptional case: both statements stand under
  \<^verbatim>\<open>except Exception\<close>), and the value is a generation error with no member of a
  resume document.
\<close>

theorem failures_become_generation_errors:
  "(generate_content (prompt_text raw_text style) = Inl e \<longrightarrow>
      get_ai_resume generate_content loads raw_text style = error_result e)
   \<and> (generate_content (prompt_text raw_text style) = Inr response_text
        \<and> loads (clean_text response_text) = Inl e \<longrightarrow>
      get_ai_resume generate_content loads raw_text style = error_result e)
   \<and> is_generation_error (error_result e)
   \<and> \<not> resume_shape (error_result e)"
  by (simp add: get_ai_resume_def error_result_def resume_shape_def)

text \<open>A backend that raises, and one that answers with the text \<^verbatim>\<open>not json\<close>.\<close>

theorem failures_become_generation_errors_witness:
  "get_ai_resume (backend_raises ''429 Quota exceeded'') loads_sample sample_request ''Corporate''
     = error_result ''429 Quota exceeded''
   \<and> get_ai_resume (backend_returns ''not json'') loads_sample sample_request ''Corporate''
     = error_result ''Expecting value: line 1 column 1 (char 0)''"
proof -
  have gen1: "backend_raises ''429 Quota exceeded'' (prompt_text sample_request ''Corporate'')
      = Inl ''429 Quota exceeded''"
    by (simp add: backend_raises_def)
  have gen2: "backend_returns ''not json'' (prompt_text sample_request ''Corporate'') = Inr ''not json''"
    by (simp add: backend_returns_def)
  have dec2: "loads_sample (clean_text ''not json'') = Inl ''Expecting value: line 1 column 1 (char 0)''"
    by (simp add: loads_sample_def json_jane_def json_fence_inside_def)
  from failures_become_generation_errors
    [of "backend_raises ''429 Quota exceeded''" sample_request "''Corporate''"
        "''429 Quota exceeded''" loads_sample]
    gen1
  have one: "get_ai_resume (backend_raises ''429 Quota exceeded'') loads_sample sample_request
      ''Corporate'' = error_result ''429 Quota exceeded''"
    by blast
  from failures_become_generation_errors
    [of "backend_returns ''not json''" sample_request "''Corporate''"
        "''Expecting value: line 1 column 1 (char 0)''" loads_sample "''not json''"]
    gen2 dec2
  have two: "get_ai_resume (backend_returns ''not json'') loads_sample sample_request
      ''Corporate'' = error_result ''Expecting value: line 1 column 1 (char 0)''"
    by blast
  from one two show ?thesis by (rule conjI)
qed

text \<open>
  The claim C7 as it is written: a valid resume object wrapped in fence markup is
  decoded and returned. Here the summary of the wrapped object contains three
  backquotes. \<^verbatim>\<open>replace\<close> removes every occurrence of the marker, this one as well,
  and the document returned is not the one that was wrapped.
\<close>

theorem fence_inside_json_counterexample:
  \<open>loads_sample json_fence_inside = Inr (JObj [(''summary'', JStr ''Use ``` for code'')])
   \<and> resume_shape (JObj [(''summary'', JStr ''Use ``` for code'')])
   \<and> get_ai_resume (backend_returns (''```json'' @ json_fence_inside @ ''```'')) loads_sample
        sample_request ''Corporate''
      = JObj [(''summary'', JStr ''Use  for code'')]
   \<and> get_ai_resume (backend_returns (''```json'' @ json_fence_inside @ ''```'')) loads_sample
        sample_request ''Corporate''
      \<noteq> JObj [(''summary'', JStr ''Use ``` for code'')]\<close>
  by (simp add: get_ai_resume_def backend_returns_def loads_sample_def resume_shape_def
        json_fence_inside_def json_jane_def)

text \<open>
  C7, as the code has it. When the response is the opening marker \<^verbatim>\<open>```json\<close>, a text
  in which three backquotes never stand in a row, and the closing marker \<^verbatim>\<open>```\<close>,
  both markers are stripped before decoding and the result is the decoding of exactly
  that text.
\<close>

theorem fenced_response_decoded:
  assumes \<open>generate_content (prompt_text raw_text style) = Inr (''```json'' @ body @ ''```'')\<close>
    and \<open>\<not> sublist ''```'' body\<close>
    and "loads body = Inr doc"
  shows "get_ai_resume generate_content loads raw_text style = doc"
  using assms(1,3) by (simp only: get_ai_resume_def Let_def strip_fences [OF assms(2)] sum.case)

text \<open>A resume object on a line of its own between the two markers.\<close>

theorem fenced_response_decoded_witness:
  \<open>get_ai_resume
      (backend_returns (''```json'' @ ([CHR 0x0A] @ json_jane @ [CHR 0x0A]) @ ''```''))
      loads_sample sample_request ''Corporate''
     = JObj [(''name'', JStr ''Jane Doe'')]
   \<and> resume_shape (JObj [(''name'', JStr ''Jane Doe'')])\<close>
proof -
  let ?body = \<open>[CHR 0x0A] @ json_jane @ [CHR 0x0A]\<close>
  have gen: \<open>backend_returns (''```json'' @ ?body @ ''```'') (prompt_text sample_request ''Corporate'')
      = Inr (''```json'' @ ?body @ ''```'')\<close>
    by (simp add: backend_returns_def)
  have nofence: \<open>\<not> sublist ''```'' ?body\<close>
    by (simp add: json_jane_def sublist_Cons_right)
  have dec: "loads_sample ?body = Inr (JObj [(''name'', JStr ''Jane Doe'')])"
    by (simp add: loads_sample_def json_jane_def)
  have "get_ai_resume (backend_returns (''```json'' @ ?body @ ''```'')) loads_sample
      sample_request ''Corporate'' = JObj [(''name'', JStr ''Jane Doe'')]"
    by (rule fenced_response_decoded
          [of "backend_returns (_ @ ?body @ _)" sample_request _ ?body loads_sample,
           OF gen nofence dec])
  then show ?thesis
    by (simp add: resume_shape_def)
qed

end
